theory Spec2Isabelle
  imports Main "HOL-Library.Char_ord" "HOL-Library.List_Lexorder" "HOL-Library.Multiset"
begin

section \<open>Errors\<close>

text \<open>
  Go's \<open>error\<close> is an interface; a returned error is \<open>nil\<close> or a value, so a result of
  type \<open>error\<close> is an \<open>error option\<close> here (\<open>None\<close> is \<open>nil\<close>). The values the two
  packages tell apart are the package-level variables \<open>ErrUnexpectedReturnType\<close>
  (package providers), \<open>ErrInvalidEmailAddress\<close> and \<open>ErrValidationError\<close> (package
  options), and the errors of dynamic type \<open>*providers.GroupValidationError\<close>. That
  struct is declared in another file of package providers; its pointer is the abstract
  payload \<open>'g\<close>. Every other error is \<open>OtherError\<close> with its message.
\<close>

datatype 'g error =
    ErrUnexpectedReturnType
  | ErrInvalidEmailAddress
  | ErrValidationError
  | GroupValidationError 'g
  | OtherError string

section \<open>Package options: the validator runner\<close>

text \<open>
  \<open>Validator\<close> is an interface with the one method \<open>Validate(*sessions.SessionState) error\<close>.
  A validator receives the session by pointer and may do anything an upstream service or
  the heap allows, so it is a state transformer: \<open>'p\<close> is the session pointer and
  \<open>'s\<close> the state it may read and change (the session object included).
\<close>

type_synonym ('p, 's, 'g) Validator = "'p \<Rightarrow> 's \<Rightarrow> 'g error option \<times> 's"

text \<open>
  The \<open>for _, validator := range validators\<close> loop of \<open>RunValidators\<close>, with the slice
  \<open>validatorErrors\<close> as accumulator.
\<close>

fun RunValidators_loop ::
  "('p, 's, 'g) Validator list \<Rightarrow> 'p \<Rightarrow> 'g error list \<Rightarrow> 's \<Rightarrow> 'g error list \<times> 's" where
  "RunValidators_loop [] session validatorErrors st = (validatorErrors, st)"
| "RunValidators_loop (validator # rest) session validatorErrors st =
     (case validator session st of
        (err, st1) \<Rightarrow>
          (case err of
             Some e \<Rightarrow> RunValidators_loop rest session (validatorErrors @ [e]) st1
           | None \<Rightarrow> RunValidators_loop rest session validatorErrors st1))"

definition RunValidators ::
  "('p, 's, 'g) Validator list \<Rightarrow> 'p \<Rightarrow> 's \<Rightarrow> 'g error list \<times> 's" where
  "RunValidators validators session st = RunValidators_loop validators session [] st"

text \<open>
  The loop of \<open>RunValidatorsWithGracePeriod\<close> over the errors of \<open>RunValidators\<close>. The
  type assertion \<open>err.(*providers.GroupValidationError)\<close> succeeds on the constructor
  \<open>GroupValidationError\<close> only. The method \<open>IsWithinGracePeriod\<close> belongs to the
  struct declared elsewhere; it is the parameter \<open>IsWithinGracePeriod\<close>, which gives
  what the check reports when it is called. The \<open>err\<close> bound by the \<open>if\<close> is local to
  it: the error appended is the one of the range clause, unchanged.
\<close>

fun GracePeriod_loop :: "('g \<Rightarrow> bool) \<Rightarrow> 'g error list \<Rightarrow> 'g error list \<Rightarrow> 'g error list" where
  "GracePeriod_loop IsWithinGracePeriod [] validatorErrors = validatorErrors"
| "GracePeriod_loop IsWithinGracePeriod (err # rest) validatorErrors =
     (case err of
        GroupValidationError g \<Rightarrow>
          (if IsWithinGracePeriod g
           then GracePeriod_loop IsWithinGracePeriod rest validatorErrors
           else GracePeriod_loop IsWithinGracePeriod rest (validatorErrors @ [err]))
      | _ \<Rightarrow> GracePeriod_loop IsWithinGracePeriod rest (validatorErrors @ [err]))"

definition RunValidatorsWithGracePeriod ::
  "('g \<Rightarrow> bool) \<Rightarrow> ('p, 's, 'g) Validator list \<Rightarrow> 'p \<Rightarrow> 's \<Rightarrow> 'g error list \<times> 's" where
  "RunValidatorsWithGracePeriod IsWithinGracePeriod validators session st =
     (case RunValidators validators session st of
        (errs, st1) \<Rightarrow> (GracePeriod_loop IsWithinGracePeriod errs [], st1))"

subsection \<open>What the runner is meant to compute\<close>

text \<open>
  \<open>evaluate_all\<close> follows the specification's words: every validator is evaluated
  once, in list order, whatever the others returned; the result is the outcome of each
  (in validator order) and the state after the last one.
\<close>

fun evaluate_all ::
  "('p, 's, 'g) Validator list \<Rightarrow> 'p \<Rightarrow> 's \<Rightarrow> 'g error option list \<times> 's" where
  "evaluate_all [] session st = ([], st)"
| "evaluate_all (validator # rest) session st =
     (case validator session st of
        (err, st1) \<Rightarrow>
          (case evaluate_all rest session st1 of
             (outs, st2) \<Rightarrow> (err # outs, st2)))"

text \<open>The failures among a list of outcomes, in order.\<close>

fun failures :: "'e option list \<Rightarrow> 'e list" where
  "failures [] = []"
| "failures (None # outs) = failures outs"
| "failures (Some e # outs) = e # failures outs"

text \<open>An error is suppressed when it is a group-validation error whose check reports true.\<close>

fun suppressed :: "('g \<Rightarrow> bool) \<Rightarrow> 'g error \<Rightarrow> bool" where
  "suppressed IsWithinGracePeriod (GroupValidationError g) = IsWithinGracePeriod g"
| "suppressed IsWithinGracePeriod _ = False"

subsection \<open>Example validators\<close>

text \<open>
  Three validators over a counter of evaluations: one that passes, one that fails with
  \<open>ErrInvalidEmailAddress\<close>, one that fails with a group-validation error whose payload
  is the value of the counter when it ran.
\<close>

definition passing :: "(unit, nat, nat) Validator" where
  "passing session st = (None, Suc st)"

definition failing :: "(unit, nat, nat) Validator" where
  "failing session st = (Some ErrInvalidEmailAddress, Suc st)"

definition group_failing :: "(unit, nat, nat) Validator" where
  "group_failing session st = (Some (GroupValidationError st), Suc st)"

text \<open>A grace-window check for these payloads: open for the payloads below 2.\<close>

definition recent :: "nat \<Rightarrow> bool" where
  "recent g = (g < 2)"

section \<open>Package providers: the single-flight middleware\<close>

subsection \<open>Strings\<close>

text \<open>
  Go strings are byte sequences, compared byte by byte; \<open>string\<close> is a list of 8-bit
  characters and its order (\<open>Char_ord\<close>, \<open>List_Lexorder\<close>) is the same lexicographic
  order, so \<open>sort.Strings\<close> is \<open>sort\<close>. \<open>strings.Join\<close> follows its source's cases on
  the number of elements.
\<close>

fun strings_Join :: "string list \<Rightarrow> string \<Rightarrow> string" where
  "strings_Join [] sep = []"
| "strings_Join [a] sep = a"
| "strings_Join (a # b # rest) sep = a @ sep @ strings_Join (b # rest) sep"

subsection \<open>Data\<close>

text \<open>
  \<open>sessions.SessionState\<close> belongs to another package; the middleware reads its fields
  \<open>AccessToken\<close> and \<open>RefreshToken\<close> only. The record is extensible, so the type
  \<open>'z SessionState_scheme\<close> stands for a session with any further fields.
\<close>

record SessionState =
  AccessToken :: string
  RefreshToken :: string

text \<open>
  The dynamic values of an \<open>interface{}\<close> that the middleware tells apart: the nil
  interface, a pointer to the \<open>Response\<close> struct local to \<open>ValidateGroup\<close> (with its
  fields \<open>InGroups\<close> and \<open>Allowed\<close>), a \<open>[]string\<close>, a \<open>bool\<close>, and a value of any
  other dynamic type.
\<close>

datatype iface =
    IfaceNil
  | IfaceResponse "string list" bool
  | IfaceStrings "string list"
  | IfaceBool bool
  | IfaceOther string

text \<open>
  What a call leaves behind: the state \<open>'u\<close> of the upstream provider (a remote
  service), the keys handed to \<open>p.single.Do\<close> so far, and the calls of
  \<open>p.StatsdClient.Incr\<close> so far, each with its name, its tags and the integer whose
  \<open>float64\<close> conversion is its third argument.
\<close>

record 'u world =
  upstream :: 'u
  single_keys :: "string list"
  statsd :: "(string \<times> string list \<times> int) list"

text \<open>
  The \<open>Provider\<close> interface that the middleware wraps and implements: its eight
  methods, each a function of the upstream state. Go returns a value and an error side
  by side, so a result is a pair and not a sum. \<open>'d\<close> is \<open>*ProviderData\<close> and \<open>'l\<close> is
  \<open>*url.URL\<close>.
\<close>

record ('u, 'z, 'd, 'l, 'g) Provider =
  provider_Data :: "'u \<Rightarrow> 'd \<times> 'u"
  provider_Redeem ::
    "string \<Rightarrow> string \<Rightarrow> 'u \<Rightarrow> ('z SessionState_scheme option \<times> 'g error option) \<times> 'u"
  provider_ValidateGroup ::
    "string \<Rightarrow> string list \<Rightarrow> string \<Rightarrow> 'u \<Rightarrow> (string list \<times> bool \<times> 'g error option) \<times> 'u"
  provider_UserGroups ::
    "string \<Rightarrow> string list \<Rightarrow> string \<Rightarrow> 'u \<Rightarrow> (string list \<times> 'g error option) \<times> 'u"
  provider_ValidateSessionToken :: "'z SessionState_scheme \<Rightarrow> 'u \<Rightarrow> bool \<times> 'u"
  provider_RefreshSessionToken ::
    "'z SessionState_scheme \<Rightarrow> 'u \<Rightarrow> (bool \<times> 'g error option) \<times> 'u"
  provider_GetSignInURL :: "'l \<Rightarrow> string \<Rightarrow> 'u \<Rightarrow> 'l \<times> 'u"
  provider_GetSignOutURL :: "'l \<Rightarrow> 'u \<Rightarrow> 'l \<times> 'u"

subsection \<open>The coalescing group, as one caller sees it\<close>

text \<open>
  Modelled from the spec: \<open>singleflight.Group\<close> and its method \<open>Do\<close> (package
  \<open>internal/pkg/singleflight\<close>), which this file imports. By the specification of the
  coalescing group, a caller of \<open>Do(key, fn)\<close> is either the leader, who executes
  \<open>fn\<close> itself and receives what \<open>fn\<close> returns, or a follower, who does not execute
  \<open>fn\<close> and receives the result and the error of the execution in flight; both receive
  the count the group reports. Which of the two a caller is, and the count, depend on
  the other callers: they are the parameter \<open>flight\<close>. The thunk is a closure; \<open>'c\<close>
  holds the variables it captures and may write.
\<close>

datatype 'g flight =
    Leader int
  | Follower iface "'g error option" int

type_synonym ('c, 'u, 'g) thunk =
  "'c \<times> 'u world \<Rightarrow> (iface \<times> 'g error option) \<times> 'c \<times> 'u world"

definition note_key :: "string \<Rightarrow> 'c \<times> 'u world \<Rightarrow> 'c \<times> 'u world" where
  "note_key key cw = (fst cw, (snd cw)\<lparr>single_keys := single_keys (snd cw) @ [key]\<rparr>)"

definition single_Do ::
  "'g flight \<Rightarrow> string \<Rightarrow> ('c, 'u, 'g) thunk \<Rightarrow> 'c \<times> 'u world
     \<Rightarrow> (iface \<times> int \<times> 'g error option) \<times> 'c \<times> 'u world" where
  "single_Do fl key fn cw =
     (case fl of
        Leader joiners \<Rightarrow>
          (case fn (note_key key cw) of ((v, err), cw1) \<Rightarrow> ((v, joiners, err), cw1))
      | Follower v err joiners \<Rightarrow> ((v, joiners, err), note_key key cw))"

subsection \<open>The middleware\<close>

text \<open>
  \<open>SingleFlightProvider.do\<close>. The receiver's fields are the wrapped provider (passed
  to each method as \<open>p\<close>), the group and the metrics client (both in the world).
\<close>

definition do_call ::
  "'g flight \<Rightarrow> string \<Rightarrow> string \<Rightarrow> ('c, 'u, 'g) thunk \<Rightarrow> 'c \<times> 'u world
     \<Rightarrow> (iface \<times> 'g error option) \<times> 'c \<times> 'u world" where
  "do_call fl endpoint key fn cw =
     (let compositeKey = endpoint @ ''/'' @ key in
      case single_Do fl compositeKey fn cw of
        ((resp, shared, err), (c1, w1)) \<Rightarrow>
          (if shared > 0
           then ((resp, err),
                 (c1, w1\<lparr>statsd := statsd w1 @
                    [(''provider.singleflight'', [''endpoint:'' @ endpoint], shared)]\<rparr>))
           else ((resp, err), (c1, w1))))"

text \<open>The methods that call the wrapped provider directly.\<close>

definition Data :: "('u, 'z, 'd, 'l, 'g) Provider \<Rightarrow> 'u world \<Rightarrow> 'd \<times> 'u world" where
  "Data p w = (case provider_Data p (upstream w) of (d, u1) \<Rightarrow> (d, w\<lparr>upstream := u1\<rparr>))"

definition Redeem ::
  "('u, 'z, 'd, 'l, 'g) Provider \<Rightarrow> string \<Rightarrow> string \<Rightarrow> 'u world
     \<Rightarrow> ('z SessionState_scheme option \<times> 'g error option) \<times> 'u world" where
  "Redeem p redirectURL code w =
     (case provider_Redeem p redirectURL code (upstream w) of
        (r, u1) \<Rightarrow> (r, w\<lparr>upstream := u1\<rparr>))"

definition GetSignInURL ::
  "('u, 'z, 'd, 'l, 'g) Provider \<Rightarrow> 'l \<Rightarrow> string \<Rightarrow> 'u world \<Rightarrow> 'l \<times> 'u world" where
  "GetSignInURL p redirectURI finalRedirect w =
     (case provider_GetSignInURL p redirectURI finalRedirect (upstream w) of
        (r, u1) \<Rightarrow> (r, w\<lparr>upstream := u1\<rparr>))"

definition GetSignOutURL ::
  "('u, 'z, 'd, 'l, 'g) Provider \<Rightarrow> 'l \<Rightarrow> 'u world \<Rightarrow> 'l \<times> 'u world" where
  "GetSignOutURL p redirectURI w =
     (case provider_GetSignOutURL p redirectURI (upstream w) of
        (r, u1) \<Rightarrow> (r, w\<lparr>upstream := u1\<rparr>))"

text \<open>
  \<open>ValidateGroup\<close>. The key is built from \<open>allowedGroups\<close> as the caller passed it;
  the closure sorts the slice in place when it runs, so the captured variable is the
  content of the caller's slice. The result is the method's three return values, the
  content of the caller's slice at return, and the world.
\<close>

definition ValidateGroup_fn ::
  "('u, 'z, 'd, 'l, 'g) Provider \<Rightarrow> string \<Rightarrow> string \<Rightarrow> (string list, 'u, 'g) thunk" where
  "ValidateGroup_fn p email accessToken cw =
     (case cw of
        (allowedGroups, w) \<Rightarrow>
          (let allowedGroups1 = sort allowedGroups in
           case provider_ValidateGroup p email allowedGroups1 accessToken (upstream w) of
             ((inGroups, allowed, err), u1) \<Rightarrow>
               (case err of
                  Some e \<Rightarrow> ((IfaceNil, Some e), (allowedGroups1, w\<lparr>upstream := u1\<rparr>))
                | None \<Rightarrow>
                    ((IfaceResponse inGroups allowed, None),
                     (allowedGroups1, w\<lparr>upstream := u1\<rparr>)))))"

definition ValidateGroup ::
  "'g flight \<Rightarrow> ('u, 'z, 'd, 'l, 'g) Provider \<Rightarrow> string \<Rightarrow> string list \<Rightarrow> string \<Rightarrow> 'u world
     \<Rightarrow> (string list \<times> bool \<times> 'g error option) \<times> string list \<times> 'u world" where
  "ValidateGroup fl p email allowedGroups accessToken w =
     (case do_call fl ''ValidateGroup'' (email @ '':'' @ strings_Join allowedGroups '','')
             (ValidateGroup_fn p email accessToken) (allowedGroups, w) of
        ((response, err), (allowedGroups1, w1)) \<Rightarrow>
          (case err of
             Some e \<Rightarrow> (([], False, Some e), allowedGroups1, w1)
           | None \<Rightarrow>
               (case response of
                  IfaceResponse inGroups allowed \<Rightarrow>
                    ((inGroups, allowed, None), allowedGroups1, w1)
                | _ \<Rightarrow> (([], False, Some ErrUnexpectedReturnType), allowedGroups1, w1))))"

text \<open>
  \<open>UserGroups\<close> sorts the caller's slice in place first; the key and the closure use
  the sorted content. The closure boxes the \<open>[]string\<close> of the provider whatever the
  error is.
\<close>

definition UserGroups_fn ::
  "('u, 'z, 'd, 'l, 'g) Provider \<Rightarrow> string \<Rightarrow> string \<Rightarrow> (string list, 'u, 'g) thunk" where
  "UserGroups_fn p email accessToken cw =
     (case cw of
        (groups, w) \<Rightarrow>
          (case provider_UserGroups p email groups accessToken (upstream w) of
             ((r, err), u1) \<Rightarrow> ((IfaceStrings r, err), (groups, w\<lparr>upstream := u1\<rparr>))))"

definition UserGroups ::
  "'g flight \<Rightarrow> ('u, 'z, 'd, 'l, 'g) Provider \<Rightarrow> string \<Rightarrow> string list \<Rightarrow> string \<Rightarrow> 'u world
     \<Rightarrow> (string list \<times> 'g error option) \<times> string list \<times> 'u world" where
  "UserGroups fl p email groups accessToken w =
     (let groups0 = sort groups in
      case do_call fl ''UserGroups'' (email @ '':'' @ strings_Join groups0 '','')
             (UserGroups_fn p email accessToken) (groups0, w) of
        ((response, err), (groups1, w1)) \<Rightarrow>
          (case err of
             Some e \<Rightarrow> (([], Some e), groups1, w1)
           | None \<Rightarrow>
               (case response of
                  IfaceStrings r \<Rightarrow> ((r, None), groups1, w1)
                | _ \<Rightarrow> (([], Some ErrUnexpectedReturnType), groups1, w1))))"

text \<open>
  \<open>ValidateSessionToken\<close> and \<open>RefreshSessionToken\<close>. The session is read for its
  token; what the provider does to the session object through the pointer is part of
  the upstream state.
\<close>

definition ValidateSessionToken_fn ::
  "('u, 'z, 'd, 'l, 'g) Provider \<Rightarrow> 'z SessionState_scheme \<Rightarrow> (unit, 'u, 'g) thunk" where
  "ValidateSessionToken_fn p s cw =
     (case cw of
        (c, w) \<Rightarrow>
          (case provider_ValidateSessionToken p s (upstream w) of
             (valid, u1) \<Rightarrow> ((IfaceBool valid, None), (c, w\<lparr>upstream := u1\<rparr>))))"

definition ValidateSessionToken ::
  "'g flight \<Rightarrow> ('u, 'z, 'd, 'l, 'g) Provider \<Rightarrow> 'z SessionState_scheme \<Rightarrow> 'u world
     \<Rightarrow> bool \<times> 'u world" where
  "ValidateSessionToken fl p s w =
     (case do_call fl ''ValidateSessionToken'' (AccessToken s)
             (ValidateSessionToken_fn p s) ((), w) of
        ((response, err), (c1, w1)) \<Rightarrow>
          (case err of
             Some e \<Rightarrow> (False, w1)
           | None \<Rightarrow>
               (case response of
                  IfaceBool valid \<Rightarrow> (valid, w1)
                | _ \<Rightarrow> (False, w1))))"

definition RefreshSessionToken_fn ::
  "('u, 'z, 'd, 'l, 'g) Provider \<Rightarrow> 'z SessionState_scheme \<Rightarrow> (unit, 'u, 'g) thunk" where
  "RefreshSessionToken_fn p s cw =
     (case cw of
        (c, w) \<Rightarrow>
          (case provider_RefreshSessionToken p s (upstream w) of
             ((r, err), u1) \<Rightarrow> ((IfaceBool r, err), (c, w\<lparr>upstream := u1\<rparr>))))"

definition RefreshSessionToken ::
  "'g flight \<Rightarrow> ('u, 'z, 'd, 'l, 'g) Provider \<Rightarrow> 'z SessionState_scheme \<Rightarrow> 'u world
     \<Rightarrow> (bool \<times> 'g error option) \<times> 'u world" where
  "RefreshSessionToken fl p s w =
     (case do_call fl ''RefreshSessionToken'' (RefreshToken s)
             (RefreshSessionToken_fn p s) ((), w) of
        ((response, err), (c1, w1)) \<Rightarrow>
          (case err of
             Some e \<Rightarrow> ((False, Some e), w1)
           | None \<Rightarrow>
               (case response of
                  IfaceBool r \<Rightarrow> ((r, None), w1)
                | _ \<Rightarrow> ((False, Some ErrUnexpectedReturnType), w1))))"

subsection \<open>An example provider\<close>

text \<open>
  A provider whose state counts the calls it served. It refuses the token
  \<open>revoked\<close>, finds a user in every group asked for, and takes the access token
  \<open>valid\<close> for the only valid one.
\<close>

definition example_provider :: "(nat, unit, string, string, nat) Provider" where
  "example_provider =
     \<lparr> provider_Data = (\<lambda>u. (''data'', Suc u)),
       provider_Redeem = (\<lambda>redirectURL code u.
         ((Some \<lparr>AccessToken = code, RefreshToken = redirectURL\<rparr>, None), Suc u)),
       provider_ValidateGroup = (\<lambda>email allowedGroups accessToken u.
         if accessToken = ''revoked''
         then (([], False, Some (OtherError ''token revoked'')), Suc u)
         else ((allowedGroups, True, None), Suc u)),
       provider_UserGroups = (\<lambda>email groups accessToken u.
         if accessToken = ''revoked''
         then (([], Some (OtherError ''token revoked'')), Suc u)
         else ((groups, None), Suc u)),
       provider_ValidateSessionToken = (\<lambda>s u. (AccessToken s = ''valid'', Suc u)),
       provider_RefreshSessionToken = (\<lambda>s u.
         if RefreshToken s = ''revoked''
         then ((False, Some (OtherError ''token revoked'')), Suc u)
         else ((True, None), Suc u)),
       provider_GetSignInURL = (\<lambda>redirectURI finalRedirect u.
         (redirectURI @ ''?redirect='' @ finalRedirect, Suc u)),
       provider_GetSignOutURL = (\<lambda>redirectURI u. (redirectURI @ ''/sign_out'', Suc u)) \<rparr>"

definition example_world :: "nat world" where
  "example_world = \<lparr>upstream = 0, single_keys = [], statsd = []\<rparr>"

definition example_session :: SessionState where
  "example_session = \<lparr>AccessToken = ''valid'', RefreshToken = ''revoked''\<rparr>"

section \<open>Properties of the validator runner\<close>

lemma RunValidators_loop_evaluate_all:
  "RunValidators_loop validators session acc st =
     (acc @ failures (fst (evaluate_all validators session st)),
      snd (evaluate_all validators session st))"
proof (induction validators arbitrary: acc st)
  case Nil
  show ?case by simp
next
  case (Cons validator rest)
  obtain err st1 where v: "validator session st = (err, st1)"
    by (cases "validator session st")
  obtain outs st2 where r: "evaluate_all rest session st1 = (outs, st2)"
    by (cases "evaluate_all rest session st1")
  show ?case
  proof (cases err)
    case None
    with v r Cons.IH [of acc st1] show ?thesis by simp
  next
    case (Some e)
    with v r Cons.IH [of "acc @ [e]" st1] show ?thesis by simp
  qed
qed

lemma evaluate_all_Cons:
  "evaluate_all (validator # rest) session st =
     (fst (validator session st) # fst (evaluate_all rest session (snd (validator session st))),
      snd (evaluate_all rest session (snd (validator session st))))"
  by (simp split: prod.splits)

lemma length_evaluate_all:
  "length (fst (evaluate_all validators session st)) = length validators"
proof (induction validators arbitrary: st)
  case Nil
  show ?case by simp
next
  case (Cons validator rest)
  show ?case
    unfolding evaluate_all_Cons by (simp add: Cons.IH)
qed

lemma snd_evaluate_all_fold:
  "snd (evaluate_all validators session st) =
     fold (\<lambda>validator st. snd (validator session st)) validators st"
proof (induction validators arbitrary: st)
  case Nil
  show ?case by simp
next
  case (Cons validator rest)
  show ?case
    unfolding evaluate_all_Cons by (simp add: Cons.IH)
qed

lemma failures_empty_iff: "failures outs = [] \<longleftrightarrow> list_all (\<lambda>out. out = None) outs"
  by (induction outs rule: failures.induct) simp_all

lemma GracePeriod_loop_filter:
  "GracePeriod_loop w errs acc = acc @ filter (\<lambda>e. \<not> suppressed w e) errs"
proof (induction errs arbitrary: acc)
  case Nil
  show ?case by simp
next
  case (Cons err rest)
  show ?case by (cases err) (simp_all add: Cons.IH)
qed

lemma RunValidators_eq:
  "RunValidators validators session st =
     (failures (fst (evaluate_all validators session st)),
      fold (\<lambda>validator st. snd (validator session st)) validators st)"
  by (simp add: RunValidators_def RunValidators_loop_evaluate_all snd_evaluate_all_fold)

text \<open>
  C6. \<open>RunValidators\<close> evaluates every validator once, in list order, whatever the
  earlier ones returned: its final state is the state after each validator ran once in
  turn, there is one outcome per validator, and the errors it returns are the failures
  among these outcomes, in validator order. The returned slice is empty exactly when
  every outcome is \<open>nil\<close>.
\<close>

theorem RunValidators_evaluates_all:
  "RunValidators validators session st =
     (failures (fst (evaluate_all validators session st)),
      fold (\<lambda>validator st. snd (validator session st)) validators st)
   \<and> length (fst (evaluate_all validators session st)) = length validators
   \<and> (fst (RunValidators validators session st) = []
        \<longleftrightarrow> list_all (\<lambda>out. out = None) (fst (evaluate_all validators session st)))"
  by (simp add: RunValidators_eq length_evaluate_all failures_empty_iff)

theorem RunValidators_evaluates_all_witness:
  "RunValidators [failing, passing, group_failing] () 0 =
     ([ErrInvalidEmailAddress, GroupValidationError 2], 3)
   \<and> fst (evaluate_all [failing, passing, group_failing] () 0) =
     [Some ErrInvalidEmailAddress, None, Some (GroupValidationError 2)]"
  using RunValidators_evaluates_all [of "[failing, passing, group_failing]" "()" 0]
  by (simp add: failing_def passing_def group_failing_def)

text \<open>
  C7. \<open>RunValidatorsWithGracePeriod\<close> returns the errors of \<open>RunValidators\<close>, in the
  same order, without those that are group-validation errors whose grace-window check
  reports true; every other error, a group-validation error outside its window
  included, is kept as it is. The validators run as in \<open>RunValidators\<close>.
\<close>

theorem RunValidatorsWithGracePeriod_filter:
  "RunValidatorsWithGracePeriod IsWithinGracePeriod validators session st =
     (filter (\<lambda>err. \<not> suppressed IsWithinGracePeriod err)
        (fst (RunValidators validators session st)),
      snd (RunValidators validators session st))"
  by (simp add: RunValidatorsWithGracePeriod_def GracePeriod_loop_filter split: prod.splits)

theorem RunValidatorsWithGracePeriod_filter_witness:
  "RunValidatorsWithGracePeriod recent [group_failing, failing, group_failing, passing] () 0 =
     ([ErrInvalidEmailAddress, GroupValidationError 2], 4)"
  using RunValidatorsWithGracePeriod_filter
    [of recent "[group_failing, failing, group_failing, passing]" "()" 0]
  by (simp add: RunValidators_eq failing_def passing_def group_failing_def recent_def)

end
